theory Spec2Isabelle
  imports Complex_Main "HOL-Library.Word"
begin

section \<open>The RGB Voronoi segmentation filter: configuration state\<close>

text \<open>
  The development follows \<^verbatim>\<open>Code/Algorithms/itkVoronoiSegmentationRGBImageFilter.h\<close>
  and the set/get macros of \<^verbatim>\<open>Code/Common/itkMacro.h\<close>.

  Numbers: the members are C++ \<^verbatim>\<open>double\<close> (and \<^verbatim>\<open>float\<close> in the working image). They
  are modelled as \<^typ>\<open>real\<close>: exact arithmetic, no rounding, no NaN and no infinities.
  \<^verbatim>\<open>unsigned int\<close> is a 32-bit word. The fixed-size member arrays
  (\<^verbatim>\<open>double m_Mean[6]\<close>, \<^verbatim>\<open>unsigned int m_TestMean[3]\<close>) are lists; that they hold 6
  and 3 elements is the predicate \<open>well_formed\<close> below. An array parameter
  \<^verbatim>\<open>double x[6]\<close> is a list as well; the source reads and writes its first six cells.
\<close>

type_synonym index = "int \<times> int"
  \<comment> \<open>a pixel position of the two-dimensional image\<close>

type_synonym RGBHCVPixel = "real list"
  \<comment> \<open>\<^verbatim>\<open>Vector<float,6>\<close>: red, green, blue, hue, chroma, value\<close>

type_synonym RGBHCVImage = "index \<Rightarrow> RGBHCVPixel"
  \<comment> \<open>\<^verbatim>\<open>Image<RGBHCVPixel>\<close>, read through its pixel lookup\<close>

type_synonym IndexList = "index list"

text \<open>
  The private members of the class, in the order of the header. The state of the
  superclass (modification time, debug flag, pipeline inputs) is declared in other
  headers; it is carried as one field of an arbitrary type \<open>'obj\<close>.
\<close>

record 'obj VoronoiSegmentationRGBImageFilter =
  superclass :: 'obj
  m_Mean :: "real list"
  m_Var :: "real list"  \<comment> \<open>actually the standard deviation of the object (header comment)\<close>
  m_MeanTolerance :: "real list"
  m_VarTolerance :: "real list"
  m_MeanPercentError :: "real list"
  m_VarPercentError :: "real list"
  m_MaxValueOfRGB :: real
  m_TestMean :: "32 word list"
  m_TestVar :: "32 word list"
  m_WorkingImage :: RGBHCVImage

definition well_formed :: "'obj VoronoiSegmentationRGBImageFilter \<Rightarrow> bool" where
  "well_formed s \<longleftrightarrow>
     length (m_Mean s) = 6 \<and> length (m_Var s) = 6 \<and>
     length (m_MeanTolerance s) = 6 \<and> length (m_VarTolerance s) = 6 \<and>
     length (m_MeanPercentError s) = 6 \<and> length (m_VarPercentError s) = 6 \<and>
     length (m_TestMean s) = 3 \<and> length (m_TestVar s) = 3"

subsection \<open>The inline accessors of the header\<close>

text \<open>
  Every array accessor of the header is the loop
  \<^verbatim>\<open>for(int i=0;i<6;i++) dst[i]=src[i];\<close>. A setter returns the new state; a getter
  returns the filled output array together with the state, so that what it does to the
  state can be stated.
\<close>

definition copy6 :: "real list \<Rightarrow> real list \<Rightarrow> real list" where
  "copy6 src dst = fold (\<lambda>i d. d[i := src ! i]) [0..<6] dst"

definition SetMean ::
  "real list \<Rightarrow> 'obj VoronoiSegmentationRGBImageFilter \<Rightarrow> 'obj VoronoiSegmentationRGBImageFilter"
where
  "SetMean x s = s\<lparr>m_Mean := copy6 x (m_Mean s)\<rparr>"

definition SetVar ::
  "real list \<Rightarrow> 'obj VoronoiSegmentationRGBImageFilter \<Rightarrow> 'obj VoronoiSegmentationRGBImageFilter"
where
  "SetVar x s = s\<lparr>m_Var := copy6 x (m_Var s)\<rparr>"

definition GetMean ::
  "'obj VoronoiSegmentationRGBImageFilter \<Rightarrow> real list
     \<Rightarrow> real list \<times> 'obj VoronoiSegmentationRGBImageFilter"
where
  "GetMean s x = (copy6 (m_Mean s) x, s)"

definition GetVar ::
  "'obj VoronoiSegmentationRGBImageFilter \<Rightarrow> real list
     \<Rightarrow> real list \<times> 'obj VoronoiSegmentationRGBImageFilter"
where
  "GetVar s x = (copy6 (m_Var s) x, s)"

definition GetMeanPercentError ::
  "'obj VoronoiSegmentationRGBImageFilter \<Rightarrow> real list
     \<Rightarrow> real list \<times> 'obj VoronoiSegmentationRGBImageFilter"
where
  "GetMeanPercentError s x = (copy6 (m_MeanPercentError s) x, s)"

definition GetVarPercentError ::
  "'obj VoronoiSegmentationRGBImageFilter \<Rightarrow> real list
     \<Rightarrow> real list \<times> 'obj VoronoiSegmentationRGBImageFilter"
where
  "GetVarPercentError s x = (copy6 (m_VarPercentError s) x, s)"

definition GetMeanTolerance ::
  "'obj VoronoiSegmentationRGBImageFilter \<Rightarrow> real list
     \<Rightarrow> real list \<times> 'obj VoronoiSegmentationRGBImageFilter"
where
  "GetMeanTolerance s x = (copy6 (m_MeanTolerance s) x, s)"

definition GetVarTolerance ::
  "'obj VoronoiSegmentationRGBImageFilter \<Rightarrow> real list
     \<Rightarrow> real list \<times> 'obj VoronoiSegmentationRGBImageFilter"
where
  "GetVarTolerance s x = (copy6 (m_VarTolerance s) x, s)"

text \<open>
  \<^verbatim>\<open>itkSetMacro(MaxValueOfRGB,double)\<close> expands to
  \<^verbatim>\<open>if (this->m_MaxValueOfRGB != _arg) { this->m_MaxValueOfRGB = _arg; this->Modified(); }\<close>
  after a debug message that touches no member. \<^verbatim>\<open>Modified()\<close> belongs to the
  superclass; it is the parameter \<open>Modified\<close>, acting on the superclass state.
  \<^verbatim>\<open>itkGetMacro\<close> returns the member.
\<close>

definition SetMaxValueOfRGB ::
  "('obj \<Rightarrow> 'obj) \<Rightarrow> real \<Rightarrow> 'obj VoronoiSegmentationRGBImageFilter
     \<Rightarrow> 'obj VoronoiSegmentationRGBImageFilter"
where
  "SetMaxValueOfRGB Modified arg s =
     (if m_MaxValueOfRGB s \<noteq> arg
      then s\<lparr>m_MaxValueOfRGB := arg, superclass := Modified (superclass s)\<rparr>
      else s)"

definition GetMaxValueOfRGB ::
  "'obj VoronoiSegmentationRGBImageFilter \<Rightarrow> real \<times> 'obj VoronoiSegmentationRGBImageFilter"
where
  "GetMaxValueOfRGB s = (m_MaxValueOfRGB s, s)"

text \<open>The channel selections: three plain assignments each, nothing else.\<close>

definition SetTestMean ::
  "32 word \<Rightarrow> 32 word \<Rightarrow> 32 word \<Rightarrow> 'obj VoronoiSegmentationRGBImageFilter
     \<Rightarrow> 'obj VoronoiSegmentationRGBImageFilter"
where
  "SetTestMean t1 t2 t3 s = s\<lparr>m_TestMean := (m_TestMean s)[0 := t1, 1 := t2, 2 := t3]\<rparr>"

definition SetTestVar ::
  "32 word \<Rightarrow> 32 word \<Rightarrow> 32 word \<Rightarrow> 'obj VoronoiSegmentationRGBImageFilter
     \<Rightarrow> 'obj VoronoiSegmentationRGBImageFilter"
where
  "SetTestVar t1 t2 t3 s = s\<lparr>m_TestVar := (m_TestVar s)[0 := t1, 1 := t2, 2 := t3]\<rparr>"

definition GetTestMean ::
  "'obj VoronoiSegmentationRGBImageFilter \<Rightarrow> 32 word list
     \<Rightarrow> 32 word list \<times> 'obj VoronoiSegmentationRGBImageFilter"
where
  "GetTestMean s x =
     (x[0 := m_TestMean s ! 0, 1 := m_TestMean s ! 1, 2 := m_TestMean s ! 2], s)"

definition GetTestVar ::
  "'obj VoronoiSegmentationRGBImageFilter \<Rightarrow> 32 word list
     \<Rightarrow> 32 word list \<times> 'obj VoronoiSegmentationRGBImageFilter"
where
  "GetTestVar s x =
     (x[0 := m_TestVar s ! 0, 1 := m_TestVar s ! 1, 2 := m_TestVar s ! 2], s)"

section \<open>The member functions declared in the header and defined elsewhere\<close>

text \<open>
  \<^verbatim>\<open>SetMeanPercentError\<close>, \<^verbatim>\<open>SetVarPercentError\<close>, \<^verbatim>\<open>SetInput\<close> and
  \<^verbatim>\<open>TestHomogeneity\<close> are only declared in the header; their bodies are in the
  \<^verbatim>\<open>.txx\<close> file that the header includes, which is outside the sources covered here.
  They are modelled from the specification's component design, over the state above.
\<close>

text \<open>
  Modelled from the spec: the one error of the taxonomy that the modelled functions can
  signal, the "configuration error"; the header declares no error type.
\<close>

datatype error = ConfigurationError

text \<open>
  Modelled from the spec: how a tolerance half-width is derived from a statistic and its
  percent error, missing with the body of \<^verbatim>\<open>SetMeanPercentError\<close> /
  \<^verbatim>\<open>SetVarPercentError\<close>. The component design gives the product, "MeanTolerance[i] =
  Mean[i] * MeanPercentError[i], VarTolerance[i] = Std[i] * VarPercentError[i]"; the data
  model allows "an equivalent percentage-of-magnitude rule" in its place. Both rules are
  modelled, and which one is in force is a parameter; they agree on non-negative
  statistics.
\<close>

datatype tolerance_rule = SignedProduct | Magnitude

fun half_width :: "tolerance_rule \<Rightarrow> real \<Rightarrow> real \<Rightarrow> real" where
  "half_width SignedProduct stat pe = stat * pe"
| "half_width Magnitude stat pe = \<bar>stat\<bar> * pe"

text \<open>
  Modelled from the spec: the treatment of a percent error outside the expected range,
  missing with the same bodies. "Percent-error values are expected in [0,1] (fractional,
  not 0-100 scale) - reject or clamp out-of-range inputs per configuration policy
  (document whichever is chosen; clamping to [0, +infinity) with a warning is
  acceptable)". The three policies that the sentence allows are modelled, and which one
  is in force is a parameter; the warning changes no member and is left out.
\<close>

datatype range_policy = Reject | ClampToUnit | ClampToNonNegative

fun admit :: "range_policy \<Rightarrow> real \<Rightarrow> error + real" where
  "admit Reject v = (if 0 \<le> v \<and> v \<le> 1 then Inr v else Inl ConfigurationError)"
| "admit ClampToUnit v = Inr (min 1 (max 0 v))"
| "admit ClampToNonNegative v = Inr (max 0 v)"

text \<open>
  Modelled from the spec: the policy applied to the cells of the argument in turn; the
  first rejected cell rejects the call.
\<close>

fun admit_all :: "range_policy \<Rightarrow> real list \<Rightarrow> error + real list" where
  "admit_all policy [] = Inr []"
| "admit_all policy (v # vs) =
     (case admit policy v of
        Inl e \<Rightarrow> Inl e
      | Inr w \<Rightarrow>
          (case admit_all policy vs of
             Inl e \<Rightarrow> Inl e
           | Inr ws \<Rightarrow> Inr (w # ws)))"

text \<open>
  Modelled from the spec: the contract \<open>Compute(Mean[6], Std[6], MeanPercentError[6],
  VarPercentError[6]) -> (MeanTolerance[6], VarTolerance[6])\<close> of the tolerance
  calculation, one half-width for each channel 0..5.
\<close>

definition Compute ::
  "tolerance_rule \<Rightarrow> real list \<Rightarrow> real list \<Rightarrow> real list \<Rightarrow> real list
     \<Rightarrow> real list \<times> real list"
where
  "Compute rule Mean Std MeanPercentError VarPercentError =
     (map (\<lambda>i. half_width rule (Mean ! i) (MeanPercentError ! i)) [0..<6],
      map (\<lambda>i. half_width rule (Std ! i) (VarPercentError ! i)) [0..<6])"

text \<open>
  Modelled from the spec: what the bodies of \<^verbatim>\<open>SetMeanPercentError\<close> and
  \<^verbatim>\<open>SetVarPercentError\<close> (outside the sources covered here) share: after the admitted
  percent errors are stored, the tolerance calculation runs on the current statistics and
  percent errors; \<open>Recompute\<close> is that second step.
\<close>

definition Recompute ::
  "tolerance_rule \<Rightarrow> 'obj VoronoiSegmentationRGBImageFilter
     \<Rightarrow> 'obj VoronoiSegmentationRGBImageFilter"
where
  "Recompute rule s =
     (case Compute rule (m_Mean s) (m_Var s) (m_MeanPercentError s) (m_VarPercentError s) of
        (mt, vt) \<Rightarrow> s\<lparr>m_MeanTolerance := mt, m_VarTolerance := vt\<rparr>)"

text \<open>
  Modelled from the spec: the body of \<^verbatim>\<open>SetMeanPercentError\<close> (declared in the header,
  defined outside the sources covered here). The six cells of the argument pass the range
  policy; a rejected call is a configuration error and leaves no new state; otherwise
  the admitted values are stored, as the array setters of the header store theirs, and
  the tolerances are recomputed.
\<close>

definition SetMeanPercentError ::
  "tolerance_rule \<Rightarrow> range_policy \<Rightarrow> real list \<Rightarrow> 'obj VoronoiSegmentationRGBImageFilter
     \<Rightarrow> error + 'obj VoronoiSegmentationRGBImageFilter"
where
  "SetMeanPercentError rule policy x s =
     (case admit_all policy (map (\<lambda>i. x ! i) [0..<6]) of
        Inl e \<Rightarrow> Inl e
      | Inr y \<Rightarrow>
          Inr (Recompute rule (s\<lparr>m_MeanPercentError := copy6 y (m_MeanPercentError s)\<rparr>)))"


text \<open>
  Modelled from the spec: the colour-space expansion, missing with the body of
  \<^verbatim>\<open>SetInput\<close>. "Value channel V = max(R,G,B). Chroma channel C = max(R,G,B) -
  min(R,G,B). ... when C = 0 (achromatic pixel), H is defined as 0"; "if maxValue <= 0,
  reject with a configuration error"; the expansion "replaces any previously held working
  image in full". The specification does not fix the hue of a chromatic pixel (its formula
  and scale are an open question there), so that part is the parameter \<open>hue\<close>, given the
  maximum value and the three channels.
\<close>

definition Expand_pixel ::
  "(real \<Rightarrow> real \<Rightarrow> real \<Rightarrow> real \<Rightarrow> real) \<Rightarrow> real \<Rightarrow> real list \<Rightarrow> RGBHCVPixel"
where
  "Expand_pixel hue maxValue px =
     (let R = px ! 0; G = px ! 1; B = px ! 2;
          V = max R (max G B);
          C = max R (max G B) - min R (min G B);
          H = (if C = 0 then 0 else hue maxValue R G B)
      in [R, G, B, H, C, V])"

text \<open>
  Modelled from the spec: the contract \<open>Expand(inputImage, maxValue) -> workingImage\<close>
  with its failure for \<open>maxValue <= 0\<close>; the input image is read through its pixel
  lookup, each pixel a list of the three channels.
\<close>

definition Expand ::
  "(real \<Rightarrow> real \<Rightarrow> real \<Rightarrow> real \<Rightarrow> real) \<Rightarrow> (index \<Rightarrow> real list) \<Rightarrow> real
     \<Rightarrow> error + RGBHCVImage"
where
  "Expand hue inputImage maxValue =
     (if maxValue \<le> 0 then Inl ConfigurationError
      else Inr (\<lambda>p. Expand_pixel hue maxValue (inputImage p)))"

text \<open>
  Modelled from the spec: the body of \<^verbatim>\<open>SetInput\<close> (declared in the header, defined
  outside the sources covered here): the expansion of the input with the stored maximum
  replaces the working image.
\<close>

definition SetInput ::
  "(real \<Rightarrow> real \<Rightarrow> real \<Rightarrow> real \<Rightarrow> real) \<Rightarrow> (index \<Rightarrow> real list)
     \<Rightarrow> 'obj VoronoiSegmentationRGBImageFilter
     \<Rightarrow> error + 'obj VoronoiSegmentationRGBImageFilter"
where
  "SetInput hue input s =
     (case Expand hue input (m_MaxValueOfRGB s) of
        Inl e \<Rightarrow> Inl e
      | Inr w \<Rightarrow> Inr (s\<lparr>m_WorkingImage := w\<rparr>))"

text \<open>
  Modelled from the spec: the statistics of a candidate region, missing with the body of
  \<^verbatim>\<open>TestHomogeneity\<close>: "the region's mean over the working image restricted to the given
  indices" and "the region's standard deviation over the same indices", the population
  convention of the estimator (sum and sum of squares, no Bessel correction).
\<close>

definition regionMean :: "RGBHCVImage \<Rightarrow> IndexList \<Rightarrow> nat \<Rightarrow> real" where
  "regionMean img Plist c = (\<Sum>p\<leftarrow>Plist. img p ! c) / real (length Plist)"

text \<open>
  Modelled from the spec: the region's standard deviation, the square root of the mean of
  the squares minus the square of the mean.
\<close>

definition regionStd :: "RGBHCVImage \<Rightarrow> IndexList \<Rightarrow> nat \<Rightarrow> real" where
  "regionStd img Plist c =
     sqrt ((\<Sum>p\<leftarrow>Plist. (img p ! c)\<^sup>2) / real (length Plist) - (regionMean img Plist c)\<^sup>2)"

text \<open>
  Modelled from the spec: the body of \<^verbatim>\<open>TestHomogeneity\<close>, outside the sources
  covered here; first step 2, the loop over the channels of \<open>TestMean\<close>. "1. If the index list is empty, reject. 2. For each of the 3 channels in
  TestMean ... if |regionMean[c] - Mean[c]| > MeanTolerance[c] for any selected channel,
  reject immediately. 3. For each of the 3 channels in TestVar ... if |regionStd[c] - Std[c]| >
  VarTolerance[c] for any selected channel, reject immediately. 4. If all 6 checks pass,
  accept." The two loops run over the selection arrays and stop at the first exceedance.
\<close>

fun MeanChecks ::
  "'obj VoronoiSegmentationRGBImageFilter \<Rightarrow> IndexList \<Rightarrow> 32 word list \<Rightarrow> bool"
where
  "MeanChecks s Plist [] = True"
| "MeanChecks s Plist (t # ts) =
     (if \<bar>regionMean (m_WorkingImage s) Plist (unat t) - m_Mean s ! unat t\<bar>
           > m_MeanTolerance s ! unat t
      then False
      else MeanChecks s Plist ts)"

text \<open>
  Modelled from the spec: step 3 of \<^verbatim>\<open>TestHomogeneity\<close>, the loop over the channels of
  \<open>TestVar\<close>.
\<close>

fun VarChecks ::
  "'obj VoronoiSegmentationRGBImageFilter \<Rightarrow> IndexList \<Rightarrow> 32 word list \<Rightarrow> bool"
where
  "VarChecks s Plist [] = True"
| "VarChecks s Plist (t # ts) =
     (if \<bar>regionStd (m_WorkingImage s) Plist (unat t) - m_Var s ! unat t\<bar>
           > m_VarTolerance s ! unat t
      then False
      else VarChecks s Plist ts)"

text \<open>
  Modelled from the spec: steps 1 to 4 of \<^verbatim>\<open>TestHomogeneity\<close> in their order.
\<close>

definition TestHomogeneity ::
  "'obj VoronoiSegmentationRGBImageFilter \<Rightarrow> IndexList \<Rightarrow> bool"
where
  "TestHomogeneity s Plist =
     (if Plist = [] then False
      else if \<not> MeanChecks s Plist (m_TestMean s) then False
      else if \<not> VarChecks s Plist (m_TestVar s) then False
      else True)"

section \<open>Example configurations\<close>

text \<open>
  A uniformly grey image of value 100 with the matching target statistics, ten percent
  mean and variance percent errors, and the channels red, green, blue selected for both
  tests. The superclass state is a counter that \<open>Modified\<close> would increment.
\<close>

definition grey_filter :: "nat VoronoiSegmentationRGBImageFilter" where
  "grey_filter =
     \<lparr>superclass = 0,
      m_Mean = [100, 100, 100, 0, 0, 100],
      m_Var = [0, 0, 0, 0, 0, 0],
      m_MeanTolerance = [10, 10, 10, 0, 0, 10],
      m_VarTolerance = [0, 0, 0, 0, 0, 0],
      m_MeanPercentError = [1/10, 1/10, 1/10, 1/10, 1/10, 1/10],
      m_VarPercentError = [1/10, 1/10, 1/10, 1/10, 1/10, 1/10],
      m_MaxValueOfRGB = 255,
      m_TestMean = [0, 1, 2],
      m_TestVar = [0, 1, 2],
      m_WorkingImage = (\<lambda>p. [100, 100, 100, 0, 0, 100])\<rparr>"


section \<open>Properties of the accessors\<close>

lemma upt_0_6: "[0..<6] = [0, 1, 2, 3, 4, 5::nat]"
  by (simp add: upt_rec)

lemma length_copy6 [simp]: "length (copy6 src dst) = length dst"
  by (simp add: copy6_def upt_0_6)

lemma copy6_full:
  assumes "length src = 6" and "length dst = 6"
  shows "copy6 src dst = src"
proof (rule nth_equalityI)
  show "length (copy6 src dst) = length src"
    using assms by simp
next
  fix i
  assume "i < length (copy6 src dst)"
  then have "i < 6"
    using assms by simp
  then consider "i = 0" | "i = 1" | "i = 2" | "i = 3" | "i = 4" | "i = 5"
    by linarith
  then show "copy6 src dst ! i = src ! i"
    using assms by cases (simp_all add: copy6_def upt_0_6)
qed

section \<open>The tolerance calculation\<close>

lemma Recompute_fields [simp]:
  "superclass (Recompute rule s) = superclass s"
  "m_Mean (Recompute rule s) = m_Mean s"
  "m_Var (Recompute rule s) = m_Var s"
  "m_MeanPercentError (Recompute rule s) = m_MeanPercentError s"
  "m_VarPercentError (Recompute rule s) = m_VarPercentError s"
  "m_MaxValueOfRGB (Recompute rule s) = m_MaxValueOfRGB s"
  "m_TestMean (Recompute rule s) = m_TestMean s"
  "m_TestVar (Recompute rule s) = m_TestVar s"
  "m_WorkingImage (Recompute rule s) = m_WorkingImage s"
  by (simp_all add: Recompute_def split: prod.splits)


lemma Recompute_lengths [simp]:
  "length (m_MeanTolerance (Recompute rule s)) = 6"
  "length (m_VarTolerance (Recompute rule s)) = 6"
  by (simp_all add: Recompute_def Compute_def)

lemma well_formed_Recompute:
  assumes "well_formed s"
  shows "well_formed (Recompute rule s)"
  using assms by (simp add: well_formed_def)








lemma well_formed_grey_filter: "well_formed grey_filter"
  by (simp add: well_formed_def grey_filter_def)

text \<open>
  The range policy at work on a negative percent error for the red channel: rejected
  under \<open>Reject\<close>, stored as 0 with tolerance 0 under the two clamping policies. No
  policy leaves a negative half-width behind a non-negative statistic.
\<close>

lemma negative_percent_error_policies:
  "SetMeanPercentError rule Reject [- 1, 0, 0, 0, 0, 0] grey_filter = Inl ConfigurationError"
  "SetMeanPercentError rule ClampToUnit [- 1, 0, 0, 0, 0, 0] grey_filter =
     Inr (grey_filter\<lparr>m_MeanTolerance := [0, 0, 0, 0, 0, 0],
                      m_MeanPercentError := [0, 0, 0, 0, 0, 0]\<rparr>)"
  "SetMeanPercentError rule ClampToNonNegative [- 1, 0, 0, 0, 0, 0] grey_filter =
     Inr (grey_filter\<lparr>m_MeanTolerance := [0, 0, 0, 0, 0, 0],
                      m_MeanPercentError := [0, 0, 0, 0, 0, 0]\<rparr>)"
  by (cases rule; simp add: SetMeanPercentError_def Recompute_def Compute_def copy6_def
      upt_0_6 grey_filter_def)+



section \<open>The homogeneity test\<close>

lemma MeanChecks_iff:
  "MeanChecks s Plist ts \<longleftrightarrow>
     (\<forall>t\<in>set ts. \<bar>regionMean (m_WorkingImage s) Plist (unat t) - m_Mean s ! unat t\<bar>
                    \<le> m_MeanTolerance s ! unat t)"
  by (induction ts) (auto simp: not_less)

lemma VarChecks_iff:
  "VarChecks s Plist ts \<longleftrightarrow>
     (\<forall>t\<in>set ts. \<bar>regionStd (m_WorkingImage s) Plist (unat t) - m_Var s ! unat t\<bar>
                    \<le> m_VarTolerance s ! unat t)"
  by (induction ts) (auto simp: not_less)

text \<open>
  Claim C1. For a non-empty pixel-index list, \<open>TestHomogeneity\<close> returns true if and only
  if, for each channel selected in \<open>TestMean\<close>, the region's mean over the working image
  differs from the target \<open>Mean\<close> of that channel by at most its \<open>MeanTolerance\<close>, and,
  for each channel selected in \<open>TestVar\<close>, the region's standard deviation differs from the
  target \<open>Std\<close> of that channel by at most its \<open>VarTolerance\<close>. One exceedance on a
  selected channel makes the verdict false.
\<close>

theorem TestHomogeneity_iff:
  assumes "Plist \<noteq> []"
  shows "TestHomogeneity s Plist \<longleftrightarrow>
     (\<forall>t\<in>set (m_TestMean s).
         \<bar>regionMean (m_WorkingImage s) Plist (unat t) - m_Mean s ! unat t\<bar>
           \<le> m_MeanTolerance s ! unat t) \<and>
     (\<forall>t\<in>set (m_TestVar s).
         \<bar>regionStd (m_WorkingImage s) Plist (unat t) - m_Var s ! unat t\<bar>
           \<le> m_VarTolerance s ! unat t)"
  using assms by (simp add: TestHomogeneity_def MeanChecks_iff VarChecks_iff)

theorem TestHomogeneity_iff_witness:
  "[(0, 0), (1, 0)] \<noteq> ([] :: IndexList) \<and> TestHomogeneity grey_filter [(0, 0), (1, 0)] \<and>
   \<not> TestHomogeneity (grey_filter\<lparr>m_Mean := [100, 100, 120, 0, 0, 100]\<rparr>) [(0, 0), (1, 0)]"
  using TestHomogeneity_iff [of "[(0, 0), (1, 0)]" grey_filter]
    TestHomogeneity_iff [of "[(0, 0), (1, 0)]" "grey_filter\<lparr>m_Mean := [100, 100, 120, 0, 0, 100]\<rparr>"]
  by (simp add: grey_filter_def regionMean_def regionStd_def)

text \<open>
  Claim C7. In every configuration state, \<open>TestHomogeneity\<close> on the empty pixel-index
  list returns false: the empty region is rejected, and the call returns a verdict rather
  than an error.
\<close>

theorem TestHomogeneity_empty: "TestHomogeneity s [] = False"
  by (simp add: TestHomogeneity_def)

section \<open>Widening the percent errors\<close>










section \<open>The colour-space expansion\<close>

lemma Expand_pixel_chroma_value_range:
  assumes "0 \<le> px ! 0" "px ! 0 \<le> maxValue" "0 \<le> px ! 1" "px ! 1 \<le> maxValue"
    "0 \<le> px ! 2" "px ! 2 \<le> maxValue"
  shows "0 \<le> Expand_pixel hue maxValue px ! 4 \<and> Expand_pixel hue maxValue px ! 4 \<le> maxValue \<and>
         0 \<le> Expand_pixel hue maxValue px ! 5 \<and> Expand_pixel hue maxValue px ! 5 \<le> maxValue"
  using assms by (simp add: Expand_pixel_def Let_def) linarith

text \<open>
  Claim C5. For every input pixel with R = G = B, the feature vector that the expansion
  puts into the working image has chroma C = 0 (channel 4) and hue H = 0 (channel 3),
  whatever the hue of chromatic pixels is.
\<close>

theorem achromatic_pixel:
  assumes "SetInput hue input s = Inr s'"
    and "input p ! 0 = input p ! 1" and "input p ! 1 = input p ! 2"
  shows "m_WorkingImage s' p ! 3 = 0 \<and> m_WorkingImage s' p ! 4 = 0"
proof -
  from assms(1) have "m_WorkingImage s' = (\<lambda>p. Expand_pixel hue (m_MaxValueOfRGB s) (input p))"
    by (auto simp: SetInput_def Expand_def split: if_splits)
  with assms(2,3) show ?thesis
    by (simp add: Expand_pixel_def Let_def)
qed

theorem achromatic_pixel_witness:
  "SetInput (\<lambda>m r g b. 42) (\<lambda>p. [100, 100, 100]) grey_filter =
     Inr (grey_filter\<lparr>m_WorkingImage := \<lambda>p. Expand_pixel (\<lambda>m r g b. 42) 255 [100, 100, 100]\<rparr>) \<and>
   m_WorkingImage
     (grey_filter\<lparr>m_WorkingImage := \<lambda>p. Expand_pixel (\<lambda>m r g b. 42) 255 [100, 100, 100]\<rparr>)
     (0, 0) ! 3 = 0 \<and>
   m_WorkingImage
     (grey_filter\<lparr>m_WorkingImage := \<lambda>p. Expand_pixel (\<lambda>m r g b. 42) 255 [100, 100, 100]\<rparr>)
     (0, 0) ! 4 = 0"
proof -
  have run: "SetInput (\<lambda>m r g b. 42) (\<lambda>p. [100, 100, 100]) grey_filter =
     Inr (grey_filter\<lparr>m_WorkingImage := \<lambda>p. Expand_pixel (\<lambda>m r g b. 42) 255 [100, 100, 100]\<rparr>)"
    by (simp add: SetInput_def Expand_def grey_filter_def)
  show ?thesis
    using run achromatic_pixel [OF run, of "(0, 0)"] by simp
qed

section \<open>The setters and getters of the header\<close>

text \<open>
  Claim C9. For every six-element array \<open>X\<close>, \<open>SetMean(X)\<close> followed by \<open>GetMean(out)\<close>
  leaves \<open>out\<close> equal to \<open>X\<close>, and \<open>SetVar(X)\<close> followed by \<open>GetVar(out)\<close> likewise; the
  getter leaves the state as it found it.
\<close>

theorem SetMean_GetMean:
  assumes "well_formed s" and "length X = 6" and "length out = 6"
  shows "GetMean (SetMean X s) out = (X, SetMean X s) \<and>
         GetVar (SetVar X s) out = (X, SetVar X s)"
  using assms
  by (simp add: GetMean_def GetVar_def SetMean_def SetVar_def copy6_full well_formed_def)

theorem SetMean_GetMean_witness:
  "well_formed grey_filter \<and>
   fst (GetMean (SetMean [1, 2, 3, 4, 5, 6] grey_filter) [0, 0, 0, 0, 0, 0]) = [1, 2, 3, 4, 5, 6] \<and>
   fst (GetVar (SetVar [6, 5, 4, 3, 2, 1] grey_filter) [0, 0, 0, 0, 0, 0]) = [6, 5, 4, 3, 2, 1]"
proof -
  have "length [1, 2, 3, 4, 5, 6 :: real] = 6" and "length [6, 5, 4, 3, 2, 1 :: real] = 6"
    and "length [0, 0, 0, 0, 0, 0 :: real] = 6"
    by simp_all
  then show ?thesis
    using well_formed_grey_filter
      SetMean_GetMean [of grey_filter "[1, 2, 3, 4, 5, 6]" "[0, 0, 0, 0, 0, 0]"]
      SetMean_GetMean [of grey_filter "[6, 5, 4, 3, 2, 1]" "[0, 0, 0, 0, 0, 0]"]
    by simp
qed

text \<open>
  Claim C10. \<open>SetMaxValueOfRGB(v)\<close> with \<open>v\<close> equal to the stored maximum leaves the
  object as it is, \<open>Modified()\<close> not called; with a different \<open>v\<close> it replaces the stored
  maximum and calls \<open>Modified()\<close>, and every other member keeps its value.
\<close>

theorem SetMaxValueOfRGB_frame:
  "(v = m_MaxValueOfRGB s \<longrightarrow> SetMaxValueOfRGB Modified v s = s) \<and>
   (v \<noteq> m_MaxValueOfRGB s \<longrightarrow>
      SetMaxValueOfRGB Modified v s =
        s\<lparr>m_MaxValueOfRGB := v, superclass := Modified (superclass s)\<rparr>)"
  by (auto simp: SetMaxValueOfRGB_def)

theorem SetMaxValueOfRGB_frame_witness:
  "SetMaxValueOfRGB Suc 255 grey_filter = grey_filter \<and>
   SetMaxValueOfRGB Suc 1023 grey_filter =
     grey_filter\<lparr>m_MaxValueOfRGB := 1023, superclass := 1\<rparr>"
  using SetMaxValueOfRGB_frame [of 255 grey_filter Suc]
    SetMaxValueOfRGB_frame [of 1023 grey_filter Suc]
  by (simp add: grey_filter_def)

text \<open>
  Claim C2, as stated, fails. The claim: after any single setter the tolerances satisfy
  \<open>MeanTolerance[i] = Mean[i] * MeanPercentError[i]\<close>. \<open>SetMean\<close> is the copy loop and
  nothing else: on the grey configuration, where the equation holds, \<open>SetMean\<close> with 200
  for the red channel leaves the red tolerance at 10, while the product is now 20.
\<close>

theorem SetMean_keeps_old_tolerance:
  "m_MeanTolerance grey_filter ! 0 = m_Mean grey_filter ! 0 * m_MeanPercentError grey_filter ! 0 \<and>
   m_MeanTolerance (SetMean [200, 100, 100, 0, 0, 100] grey_filter) ! 0 \<noteq>
     m_Mean (SetMean [200, 100, 100, 0, 0, 100] grey_filter) ! 0 *
     m_MeanPercentError (SetMean [200, 100, 100, 0, 0, 100] grey_filter) ! 0"
  by (simp add: SetMean_def grey_filter_def copy6_def upt_0_6)

text \<open>
  Claim C2, amended. \<open>SetMean\<close>, \<open>SetVar\<close> and \<open>SetMaxValueOfRGB\<close> recompute nothing:
  after each of them \<open>MeanTolerance\<close>, \<open>VarTolerance\<close> and the working image are exactly
  what they were before the call.
\<close>

theorem setters_recompute_nothing:
  "m_MeanTolerance (SetMean x s) = m_MeanTolerance s \<and>
   m_VarTolerance (SetMean x s) = m_VarTolerance s \<and>
   m_WorkingImage (SetMean x s) = m_WorkingImage s \<and>
   m_MeanTolerance (SetVar x s) = m_MeanTolerance s \<and>
   m_VarTolerance (SetVar x s) = m_VarTolerance s \<and>
   m_WorkingImage (SetVar x s) = m_WorkingImage s \<and>
   m_MeanTolerance (SetMaxValueOfRGB Modified v s) = m_MeanTolerance s \<and>
   m_VarTolerance (SetMaxValueOfRGB Modified v s) = m_VarTolerance s \<and>
   m_WorkingImage (SetMaxValueOfRGB Modified v s) = m_WorkingImage s"
  by (simp add: SetMean_def SetVar_def SetMaxValueOfRGB_def)

text \<open>
  Claim C3, as stated, fails. The claim: a non-positive value passed to
  \<open>SetMaxValueOfRGB\<close> and a channel index outside 0..5 passed to \<open>SetTestMean\<close> or
  \<open>SetTestVar\<close> are rejected at the call. The setters have no check and no way to fail:
  -1 becomes the stored maximum, and 7, 8, 9 become the selected channels.
\<close>

theorem setters_accept_invalid_values:
  "m_MaxValueOfRGB (SetMaxValueOfRGB Suc (- 1) grey_filter) = - 1 \<and>
   5 < unat (7 :: 32 word) \<and>
   m_TestMean (SetTestMean 7 8 9 grey_filter) = [7, 8, 9] \<and>
   m_TestVar (SetTestVar 7 8 9 grey_filter) = [7, 8, 9]"
  by (simp add: SetMaxValueOfRGB_def SetTestMean_def SetTestVar_def grey_filter_def)

text \<open>
  Claim C3, amended. \<open>SetMaxValueOfRGB\<close>, \<open>SetTestMean\<close> and \<open>SetTestVar\<close> validate
  nothing: each call completes and stores exactly the values it is given, whatever they
  are (a non-positive maximum, a channel index above 5).
\<close>

theorem setters_store_unchecked:
  assumes "well_formed s"
  shows "m_MaxValueOfRGB (SetMaxValueOfRGB Modified v s) = v \<and>
         m_TestMean (SetTestMean t1 t2 t3 s) = [t1, t2, t3] \<and>
         m_TestVar (SetTestVar t1 t2 t3 s) = [t1, t2, t3]"
proof -
  have three: "xs[0 := a, 1 := b, 2 := c] = [a, b, c]"
    if "length xs = 3" for xs :: "32 word list" and a b c
  proof -
    from that obtain u v w where "xs = [u, v, w]"
      by (auto simp: length_Suc_conv numeral_3_eq_3)
    then show ?thesis by simp
  qed
  from assms have "length (m_TestMean s) = 3" and "length (m_TestVar s) = 3"
    by (simp_all add: well_formed_def)
  then have "(m_TestMean s)[0 := t1, 1 := t2, 2 := t3] = [t1, t2, t3]"
    and "(m_TestVar s)[0 := t1, 1 := t2, 2 := t3] = [t1, t2, t3]"
    by (simp_all only: three)
  then show ?thesis
    by (simp add: SetMaxValueOfRGB_def SetTestMean_def SetTestVar_def)
qed

theorem setters_store_unchecked_witness:
  "well_formed grey_filter \<and>
   m_MaxValueOfRGB (SetMaxValueOfRGB Suc 0 grey_filter) = 0 \<and>
   m_TestMean (SetTestMean 6 0 1 grey_filter) = [6, 0, 1] \<and>
   m_TestVar (SetTestVar 0 1 4294967295 grey_filter) = [0, 1, 4294967295]"
  using well_formed_grey_filter
    setters_store_unchecked [OF well_formed_grey_filter, of Suc 0 6 0 1]
    setters_store_unchecked [OF well_formed_grey_filter, of Suc 0 0 1 4294967295]
  by simp

end
